theory Spec2Isabelle
  imports Complex_Main "HOL-Library.AList"
begin

section \<open>Court renderer (draw\_shot\_chart.py)\<close>

text \<open>
  The drawing surface is the matplotlib Axes object that \<open>create_court\<close> and
  \<open>draw_shots\<close> mutate.  Only what the two functions touch is kept: the artists added
  so far (in call order), the two axis limits and the tick positions.  A call that mutates
  the surface becomes a function returning the updated surface.
\<close>

datatype artist =
    Line2D "int list" "int list" int string
      \<comment> \<open>\<open>ax.plot(xs, ys, linewidth=lw, color=c)\<close>\<close>
  | Arc "int \<times> int" int int int int string int
      \<comment> \<open>\<open>Arc(centre, width, height, theta1, theta2, edgecolor, lw)\<close>, no face colour\<close>
  | Circle "int \<times> int" int string int
      \<comment> \<open>\<open>Circle(centre, radius, edgecolor, lw)\<close>, no face colour\<close>
  | PathCollection "int list" "int list" string int rat
      \<comment> \<open>\<open>ax.scatter(xs, ys, c, s, alpha)\<close>\<close>

datatype ticks = AutoTicks | FixedTicks "int list"

record axes =
  artists :: "artist list"
  xlim :: "int \<times> int"
  ylim :: "int \<times> int"
  xticks :: ticks
  yticks :: ticks

text \<open>The process-wide \<open>mpl.rcParams\<close> dictionary; \<open>create_court\<close> assigns three keys.\<close>

datatype rcvalue = RcStr string | RcInt int

type_synonym rcParams = "string \<rightharpoonup> rcvalue"

definition plot :: "int list \<Rightarrow> int list \<Rightarrow> int \<Rightarrow> string \<Rightarrow> axes \<Rightarrow> axes" where
  "plot xs ys lw c ax = ax\<lparr>artists := artists ax @ [Line2D xs ys lw c]\<rparr>"

definition add_artist :: "artist \<Rightarrow> axes \<Rightarrow> axes" where
  "add_artist a ax = ax\<lparr>artists := artists ax @ [a]\<rparr>"

definition set_xlim :: "int \<Rightarrow> int \<Rightarrow> axes \<Rightarrow> axes" where
  "set_xlim lo hi ax = ax\<lparr>xlim := (lo, hi)\<rparr>"

definition set_ylim :: "int \<Rightarrow> int \<Rightarrow> axes \<Rightarrow> axes" where
  "set_ylim lo hi ax = ax\<lparr>ylim := (lo, hi)\<rparr>"

definition set_xticks :: "int list \<Rightarrow> axes \<Rightarrow> axes" where
  "set_xticks ts ax = ax\<lparr>xticks := FixedTicks ts\<rparr>"

definition set_yticks :: "int list \<Rightarrow> axes \<Rightarrow> axes" where
  "set_yticks ts ax = ax\<lparr>yticks := FixedTicks ts\<rparr>"

definition scatter :: "int list \<Rightarrow> int list \<Rightarrow> string \<Rightarrow> int \<Rightarrow> rat \<Rightarrow> axes \<Rightarrow> axes" where
  "scatter xs ys c s alpha ax = ax\<lparr>artists := artists ax @ [PathCollection xs ys c s alpha]\<rparr>"

text \<open>\<open>create_court(ax, color)\<close>, statement by statement (lines 6 to 23).\<close>

definition create_court :: "axes \<Rightarrow> string \<Rightarrow> rcParams \<Rightarrow> axes \<times> rcParams" where
  "create_court ax color rc =
    (let ax = plot [-220, -220] [0, 140] 2 color ax;
         ax = plot [220, 220] [0, 140] 2 color ax;
         ax = add_artist (Arc (0, 140) 440 315 0 180 color 2) ax;
         ax = plot [-80, -80] [0, 190] 2 color ax;
         ax = plot [80, 80] [0, 190] 2 color ax;
         ax = plot [-60, -60] [0, 190] 2 color ax;
         ax = plot [60, 60] [0, 190] 2 color ax;
         ax = plot [-80, 80] [190, 190] 2 color ax;
         ax = add_artist (Circle (0, 190) 60 color 2) ax;
         ax = add_artist (Circle (0, 60) 15 color 2) ax;
         ax = plot [-30, 30] [40, 40] 2 color ax;
         ax = set_xlim (-250) 250 ax;
         ax = set_ylim 0 470 ax;
         ax = set_xticks [] ax;
         ax = set_yticks [] ax;
         rc = rc(''font.family'' \<mapsto> RcStr ''Avenir'');
         rc = rc(''font.size'' \<mapsto> RcInt 18);
         rc = rc(''axes.linewidth'' \<mapsto> RcInt 2)
     in (ax, rc))"

text \<open>
  A shot row, with the three columns the renderer reads.  The record is extensible, so a
  row may carry every other column of the endpoint's table.
\<close>

record shot =
  LOC_X :: int
  LOC_Y :: int
  SHOT_MADE_FLAG :: int

text \<open>
  The pandas operations of \<open>draw_shots\<close>: \<open>df[mask]\<close> keeps the rows whose mask entry
  is true, in order; \<open>df[col] == v\<close> is the elementwise comparison; \<open>df[col]\<close> is the
  column as a series; \<open>series + k\<close> adds elementwise.
\<close>

definition col_eq :: "('a shot_scheme \<Rightarrow> int) \<Rightarrow> int \<Rightarrow> 'a shot_scheme list \<Rightarrow> bool list" where
  "col_eq c v df = map (\<lambda>r. c r = v) df"

definition select_rows :: "'a shot_scheme list \<Rightarrow> bool list \<Rightarrow> 'a shot_scheme list" where
  "select_rows df keep = map fst (filter snd (zip df keep))"

definition column :: "('a shot_scheme \<Rightarrow> int) \<Rightarrow> 'a shot_scheme list \<Rightarrow> int list" where
  "column c df = map c df"

definition series_add :: "int list \<Rightarrow> int \<Rightarrow> int list" where
  "series_add xs k = map (\<lambda>x. x + k) xs"

definition draw_shots :: "axes \<Rightarrow> 'a shot_scheme list \<Rightarrow> axes" where
  "draw_shots ax df =
    (let made_shots = select_rows df (col_eq SHOT_MADE_FLAG 1 df);
         missed_shots = select_rows df (col_eq SHOT_MADE_FLAG 0 df);
         ax = scatter (column LOC_X made_shots) (series_add (column LOC_Y made_shots) 60)
                ''green'' 10 (6 / 10) ax;
         ax = scatter (column LOC_X missed_shots) (series_add (column LOC_Y missed_shots) 60)
                ''red'' 10 (6 / 10) ax
     in ax)"

text \<open>The points a scatter artist of a given colour puts on the surface.\<close>

fun points_of :: "string \<Rightarrow> artist \<Rightarrow> (int \<times> int) list" where
  "points_of c (PathCollection xs ys c' s alpha) = (if c' = c then zip xs ys else [])"
| "points_of c _ = []"

definition plotted :: "string \<Rightarrow> axes \<Rightarrow> (int \<times> int) list" where
  "plotted c ax = concat (map (points_of c) (artists ax))"


section \<open>Season fetcher and multi-season driver (robust\_fetch\_all.py)\<close>

subsection \<open>Season strings\<close>

text \<open>
  Python's \<open>str\<close> on an integer (decimal digits, a leading minus sign for a negative
  number) and \<open>str.zfill\<close> (left-pad with zeros up to the width, after a leading sign
  character; a string already that long is returned as it is).
\<close>

definition digit_char :: "nat \<Rightarrow> char" where
  "digit_char d = ''0123456789'' ! d"

fun str_nat :: "nat \<Rightarrow> string" where
  "str_nat n = (if n < 10 then [digit_char n] else str_nat (n div 10) @ [digit_char (n mod 10)])"

declare str_nat.simps [simp del]

definition str_int :: "int \<Rightarrow> string" where
  "str_int n = (if n < 0 then CHR ''-'' # str_nat (nat (- n)) else str_nat (nat n))"

definition zfill :: "nat \<Rightarrow> string \<Rightarrow> string" where
  "zfill width s =
    (if width \<le> length s then s
     else (case s of
             c # cs \<Rightarrow>
               if c = CHR ''+'' \<or> c = CHR ''-''
               then c # replicate (width - length s) CHR ''0'' @ cs
               else replicate (width - length s) CHR ''0'' @ s
           | [] \<Rightarrow> replicate width CHR ''0''))"

text \<open>Line 127: \<open>season_str = f"{year}-{str(year-2000+1).zfill(2)}"\<close>.\<close>

definition season_str :: "int \<Rightarrow> string" where
  "season_str year = str_int year @ ''-'' @ zfill 2 (str_int (year - 2000 + 1))"

subsection \<open>The environment: teams, endpoint, files\<close>

text \<open>
  A team record of the static list carries the keys \<open>id\<close> and \<open>full_name\<close>.
  Exceptions are values; \<open>str_exn\<close> is Python's \<open>str(e)\<close>.  The texts of the
  ZeroDivisionError, the ValueError and the OverflowError are the ones CPython 3.11 gives
  for \<open>%\<close> and for \<open>time.sleep\<close>; no property below depends on them.
\<close>

record team =
  id' :: int
  full_name :: string

datatype exn =
  ApiError string | ReadError string | ZeroDivisionError | ValueError string | OverflowError string

fun str_exn :: "exn \<Rightarrow> string" where
  "str_exn (ApiError m) = m"
| "str_exn (ReadError m) = m"
| "str_exn ZeroDivisionError = ''integer modulo by zero''"
| "str_exn (ValueError m) = m"
| "str_exn (OverflowError m) = m"

text \<open>
  What the fetcher calls but does not define.  \<open>'r\<close> is a row of the endpoint's table (a
  DataFrame is the list of its rows, \<open>pd.concat\<close> with \<open>ignore_index=True\<close> is list
  concatenation), \<open>'f\<close> is the content of a file.
  \<^item> \<open>get_teams\<close>: the static list \<open>teams.get_teams()\<close>;
  \<^item> \<open>ShotChartDetail team_id season\<close>: the request for one team and season followed by
    \<open>get_data_frames()[0]\<close>: the first table, or the exception either step raises.  Within
    one run every pair of team and season is requested at most once, so the answer is a
    function of the pair;
  \<^item> \<open>read_csv\<close>: \<open>pd.read_csv\<close> on a file's content, which may raise;
  \<^item> \<open>to_csv\<close>: the content \<open>DataFrame.to_csv(index=False)\<close> writes;
  \<^item> \<open>max_sleep\<close>: the longest delay, in seconds, that \<open>time.sleep\<close> accepts on the
    platform (the range of its \<open>time_t\<close>).
\<close>

record ('r, 'f) env =
  get_teams :: "team list"
  ShotChartDetail :: "int \<Rightarrow> string \<Rightarrow> exn + 'r list"
  read_csv :: "'f \<Rightarrow> exn + 'r list"
  to_csv :: "'r list \<Rightarrow> 'f"
  max_sleep :: rat

text \<open>
  The world the fetcher acts on: the files of the working directory by name, the log of
  shot-chart requests sent (team id and season, oldest first) and the log of
  \<open>time.sleep\<close> calls.  Status lines printed are not part of the state.
\<close>

record 'f world =
  files :: "string \<rightharpoonup> 'f"
  requests :: "(int \<times> string) list"
  sleeps :: "rat list"

definition exists_file :: "string \<Rightarrow> 'f world \<Rightarrow> bool" where
  "exists_file name w = (files w name \<noteq> None)"

definition write_file :: "string \<Rightarrow> 'f \<Rightarrow> 'f world \<Rightarrow> 'f world" where
  "write_file name content w = w\<lparr>files := (files w)(name \<mapsto> content)\<rparr>"

definition remove_file :: "string \<Rightarrow> 'f world \<Rightarrow> 'f world" where
  "remove_file name w = w\<lparr>files := (files w)(name := None)\<rparr>"

definition send_request :: "int \<Rightarrow> string \<Rightarrow> 'f world \<Rightarrow> 'f world" where
  "send_request team_id season w = w\<lparr>requests := requests w @ [(team_id, season)]\<rparr>"

text \<open>
  \<open>time.sleep(delay)\<close> raises OverflowError for a delay outside the platform's range,
  ValueError for any other negative delay, and returns after the delay otherwise.
\<close>

definition sleep :: "('r, 'f) env \<Rightarrow> rat \<Rightarrow> 'f world \<Rightarrow> exn + 'f world" where
  "sleep E delay w =
    (if delay < - max_sleep E \<or> max_sleep E < delay then
       Inl (OverflowError ''timestamp out of range for platform time_t'')
     else if delay < 0 then
       Inl (ValueError ''sleep length must be non-negative'')
     else Inr (w\<lparr>sleeps := sleeps w @ [delay]\<rparr>))"

definition output_file_name :: "string \<Rightarrow> string" where
  "output_file_name season = ''nba_shots_'' @ season @ ''_all.csv''"

definition progress_file_name :: "string \<Rightarrow> string" where
  "progress_file_name season = ''nba_shots_'' @ season @ ''_progress.csv''"

subsection \<open>get\_all\_shots\_season\<close>

text \<open>The variables of the team loop: the two accumulating lists and the world.\<close>

record ('r, 'f) fetch_state =
  all_shots :: "'r list list"
  failed_teams :: "(string \<times> string) list"
  world :: "'f world"

text \<open>
  One iteration of the loop of lines 39 to 73, for the team at index \<open>i\<close> (counted from 1),
  in two parts.

  \<open>fetch_team_try\<close> is the \<open>try\<close> block (lines 43 to 68): the request, the append, the
  checkpoint and the sleep.  It ends normally, or raises with the variables as they are at
  that point: an exception of the request skips the append and the checkpoint;
  \<open>i % save_every\<close> is evaluated after the append, so with \<open>save_every = 0\<close> its
  ZeroDivisionError is raised with the rows already appended; an exception of the sleep of
  line 68 is raised after the checkpoint.

  \<open>fetch_team_except\<close> is the handler (lines 70 to 73): it records the failure and
  sleeps.  An exception of that sleep is not handled: it leaves the function, with the
  world as it is then.
\<close>

definition fetch_team_try ::
  "('r, 'f) env \<Rightarrow> string \<Rightarrow> rat \<Rightarrow> int \<Rightarrow> int \<Rightarrow> team \<Rightarrow> ('r, 'f) fetch_state \<Rightarrow>
     (exn \<times> ('r, 'f) fetch_state) + ('r, 'f) fetch_state"
where
  "fetch_team_try E season delay save_every i team st =
    (let team_id = id' team;
         st = st\<lparr>world := send_request team_id season (world st)\<rparr>
     in case ShotChartDetail E team_id season of
          Inl e \<Rightarrow> Inl (e, st)
        | Inr df \<Rightarrow>
            (let st = (if length df > 0 then st\<lparr>all_shots := all_shots st @ [df]\<rparr> else st)
             in if save_every = 0 then Inl (ZeroDivisionError, st)
                else
                  (let st = (if i mod save_every = 0 \<and> all_shots st \<noteq> [] then
                               st\<lparr>world := write_file (progress_file_name season)
                                            (to_csv E (concat (all_shots st))) (world st)\<rparr>
                             else st)
                   in case sleep E delay (world st) of
                        Inl e \<Rightarrow> Inl (e, st)
                      | Inr w \<Rightarrow> Inr (st\<lparr>world := w\<rparr>))))"

definition fetch_team_except ::
  "('r, 'f) env \<Rightarrow> rat \<Rightarrow> team \<Rightarrow> exn \<Rightarrow> ('r, 'f) fetch_state \<Rightarrow>
     (exn \<times> 'f world) + ('r, 'f) fetch_state"
where
  "fetch_team_except E delay team e st =
    (let team_name = full_name team;
         st = st\<lparr>failed_teams := failed_teams st @ [(team_name, str_exn e)]\<rparr>
     in case sleep E delay (world st) of
          Inl e' \<Rightarrow> Inl (e', world st)
        | Inr w \<Rightarrow> Inr (st\<lparr>world := w\<rparr>))"

definition fetch_team ::
  "('r, 'f) env \<Rightarrow> string \<Rightarrow> rat \<Rightarrow> int \<Rightarrow> int \<Rightarrow> team \<Rightarrow> ('r, 'f) fetch_state \<Rightarrow>
     (exn \<times> 'f world) + ('r, 'f) fetch_state"
where
  "fetch_team E season delay save_every i team st =
    (case fetch_team_try E season delay save_every i team st of
       Inr st' \<Rightarrow> Inr st'
     | Inl (e, st') \<Rightarrow> fetch_team_except E delay team e st')"

text \<open>
  \<open>for i, team in enumerate(all_teams, 1)\<close>: the index advances with every team.  The
  loop ends with the variables after the last team, or with the exception that left an
  iteration and the world at that point.
\<close>

fun team_loop ::
  "('r, 'f) env \<Rightarrow> string \<Rightarrow> rat \<Rightarrow> int \<Rightarrow> int \<Rightarrow> team list \<Rightarrow> ('r, 'f) fetch_state \<Rightarrow>
     (exn \<times> 'f world) + ('r, 'f) fetch_state"
where
  "team_loop E season delay save_every i [] st = Inr st"
| "team_loop E season delay save_every i (team # rest) st =
     (case fetch_team E season delay save_every i team st of
        Inl raised \<Rightarrow> Inl raised
      | Inr st' \<Rightarrow> team_loop E season delay save_every (i + 1) rest st')"

text \<open>
  The function returns the DataFrame or raises.  The exceptions that leave it are the one
  of \<open>pd.read_csv\<close> on an existing output file (line 25) and the one of the handler's
  \<open>time.sleep\<close> (line 73), after which nothing of lines 75 to 103 runs.  Writing and
  removing a file and printing a status line are taken to succeed, and the tables of the
  endpoint to carry the columns \<open>GAME_ID\<close> and \<open>PLAYER_NAME\<close> that lines 88 and 89
  count for their status lines.
\<close>

definition get_all_shots_season ::
  "('r, 'f) env \<Rightarrow> string \<Rightarrow> rat \<Rightarrow> int \<Rightarrow> 'f world \<Rightarrow> (exn + 'r list) \<times> 'f world"
where
  "get_all_shots_season E season delay save_every w =
    (let output_file = output_file_name season
     in case files w output_file of
          Some content \<Rightarrow> (read_csv E content, w)
        | None \<Rightarrow>
            (let all_teams = get_teams E
             in case team_loop E season delay save_every 1 all_teams
                       \<lparr>all_shots = [], failed_teams = [], world = w\<rparr> of
                  Inl (e, w) \<Rightarrow> (Inl e, w)
                | Inr st \<Rightarrow>
                    if all_shots st \<noteq> [] then
                      (let combined_df = concat (all_shots st);
                           w = write_file output_file (to_csv E combined_df) (world st);
                           progress_file = progress_file_name season;
                           w = (if exists_file progress_file w then remove_file progress_file w
                                else w)
                       in (Inr combined_df, w))
                    else (Inr [], world st)))"

subsection \<open>get\_all\_seasons\<close>

text \<open>
  An entry of the run summary: \<open>{'success': True, 'shots': n, 'file': name}\<close> or
  \<open>{'success': False, 'error': message}\<close>.  The summary is a dict, which keeps its keys
  in insertion order: an association list, assigned with \<open>AList.update\<close> (a present key
  keeps its place, a new key goes last).
\<close>

datatype season_info = Success nat string | Failure string

type_synonym run_summary = "(string \<times> season_info) list"

text \<open>The body of the loop of lines 126 to 145 for one year.\<close>

definition fetch_season ::
  "('r, 'f) env \<Rightarrow> rat \<Rightarrow> int \<Rightarrow> int \<Rightarrow> run_summary \<times> 'f world \<Rightarrow> run_summary \<times> 'f world"
where
  "fetch_season E delay save_every year acc =
    (let season_str = season_str year;
         (results, w) = acc
     in case get_all_shots_season E season_str delay save_every w of
          (Inr df, w') \<Rightarrow>
            (AList.update season_str (Success (length df) (output_file_name season_str)) results, w')
        | (Inl e, w') \<Rightarrow>
            (AList.update season_str (Failure (str_exn e)) results, w'))"

fun seasons_loop ::
  "('r, 'f) env \<Rightarrow> rat \<Rightarrow> int \<Rightarrow> int list \<Rightarrow> run_summary \<times> 'f world \<Rightarrow> run_summary \<times> 'f world"
where
  "seasons_loop E delay save_every [] acc = acc"
| "seasons_loop E delay save_every (year # years) acc =
     seasons_loop E delay save_every years (fetch_season E delay save_every year acc)"

text \<open>The loop of lines 168 to 174 over \<open>results.items()\<close>, adding up \<open>total_shots\<close>.\<close>

fun summary_total :: "run_summary \<Rightarrow> nat \<Rightarrow> nat" where
  "summary_total [] total_shots = total_shots"
| "summary_total ((season, Success shots file) # items) total_shots =
     summary_total items (total_shots + shots)"
| "summary_total ((season, Failure error) # items) total_shots =
     summary_total items total_shots"

text \<open>
  \<open>range(start_year, end_year + 1)\<close> is the list \<open>[start_year..end_year]\<close>, empty when
  the end lies before the start.  The function returns \<open>results\<close>; the total it prints
  last is returned beside it.
\<close>

definition get_all_seasons ::
  "('r, 'f) env \<Rightarrow> int \<Rightarrow> int \<Rightarrow> rat \<Rightarrow> int \<Rightarrow> 'f world \<Rightarrow> run_summary \<times> nat \<times> 'f world"
where
  "get_all_seasons E start_year end_year delay save_every w =
    (let (results, w') = seasons_loop E delay save_every [start_year..end_year] ([], w);
         total_shots = summary_total results 0
     in (results, total_shots, w'))"


section \<open>Notions used to state the properties\<close>

text \<open>
  The tables of the teams whose request succeeds with at least one row, in the order of
  the team list: the per-team results the fetcher is to keep.
\<close>

definition nonempty_results :: "('r, 'f) env \<Rightarrow> string \<Rightarrow> team list \<Rightarrow> 'r list list" where
  "nonempty_results E season ts =
     concat (map (\<lambda>t. case ShotChartDetail E (id' t) season of
                          Inl e \<Rightarrow> []
                        | Inr df \<Rightarrow> if df \<noteq> [] then [df] else []) ts)"


text \<open>
  The loop when no sleep raises, for the proofs: \<open>team_step\<close> is the state an iteration
  ends in then, \<open>team_steps\<close> the state the loop ends in (\<open>fetch_team_returns\<close> and
  \<open>team_loop_returns\<close> below).
\<close>

definition slept :: "rat \<Rightarrow> 'f world \<Rightarrow> 'f world" where
  "slept delay w = w\<lparr>sleeps := sleeps w @ [delay]\<rparr>"

definition team_step ::
  "('r, 'f) env \<Rightarrow> string \<Rightarrow> rat \<Rightarrow> int \<Rightarrow> int \<Rightarrow> team \<Rightarrow> ('r, 'f) fetch_state \<Rightarrow> ('r, 'f) fetch_state"
where
  "team_step E season delay save_every i team st =
    (let w = send_request (id' team) season (world st)
     in case ShotChartDetail E (id' team) season of
          Inl e \<Rightarrow>
            st\<lparr>failed_teams := failed_teams st @ [(full_name team, str_exn e)],
               world := slept delay w\<rparr>
        | Inr df \<Rightarrow>
            (let shots = (if length df > 0 then all_shots st @ [df] else all_shots st)
             in if save_every = 0 then
                  st\<lparr>all_shots := shots,
                     failed_teams := failed_teams st @ [(full_name team, str_exn ZeroDivisionError)],
                     world := slept delay w\<rparr>
                else if i mod save_every = 0 \<and> shots \<noteq> [] then
                  st\<lparr>all_shots := shots,
                     world := slept delay
                       (write_file (progress_file_name season) (to_csv E (concat shots)) w)\<rparr>
                else
                  st\<lparr>all_shots := shots, world := slept delay w\<rparr>))"

fun team_steps ::
  "('r, 'f) env \<Rightarrow> string \<Rightarrow> rat \<Rightarrow> int \<Rightarrow> int \<Rightarrow> team list \<Rightarrow> ('r, 'f) fetch_state \<Rightarrow> ('r, 'f) fetch_state"
where
  "team_steps E season delay save_every i [] st = st"
| "team_steps E season delay save_every i (team # rest) st =
     team_steps E season delay save_every (i + 1) rest
       (team_step E season delay save_every i team st)"

text \<open>
  The world in which the driver fetches the season of index \<open>k\<close> of its range: the one
  the loop has reached after the first \<open>k\<close> seasons.
\<close>

definition world_before ::
  "('r, 'f) env \<Rightarrow> rat \<Rightarrow> int \<Rightarrow> int list \<Rightarrow> 'f world \<Rightarrow> nat \<Rightarrow> 'f world" where
  "world_before E delay save_every years w k =
     snd (seasons_loop E delay save_every (take k years) ([], w))"

subsection \<open>Concrete inputs\<close>

text \<open>
  A fresh drawing surface; three teams of which the second one's request times out; an
  endpoint that never yields a row; a working directory that is empty, and one that holds
  an output file without content, on which \<open>pd.read_csv\<close> raises.  The longest sleep is
  that of a 64-bit \<open>time_t\<close> in nanoseconds.
\<close>

definition blank_axes :: axes where
  "blank_axes = \<lparr>artists = [], xlim = (0, 1), ylim = (0, 1), xticks = AutoTicks, yticks = AutoTicks\<rparr>"

definition demo_teams :: "team list" where
  "demo_teams = [\<lparr>id' = 1, full_name = ''A''\<rparr>, \<lparr>id' = 2, full_name = ''B''\<rparr>,
                 \<lparr>id' = 3, full_name = ''C''\<rparr>]"

definition demo_env :: "(nat, nat list) env" where
  "demo_env = \<lparr>get_teams = demo_teams,
               ShotChartDetail = (\<lambda>team_id season.
                  if team_id = 1 then Inr [10, 11]
                  else if team_id = 2 then Inl (ApiError ''timeout'')
                  else Inr [30]),
               read_csv = (\<lambda>content. if content = []
                  then Inl (ReadError ''No columns to parse from file'') else Inr content),
               to_csv = (\<lambda>df. df),
               max_sleep = 9223372036\<rparr>"

definition failing_env :: "(nat, nat list) env" where
  "failing_env = \<lparr>get_teams = demo_teams,
               ShotChartDetail = (\<lambda>team_id season.
                  if team_id = 2 then Inr [] else Inl (ApiError ''timeout'')),
               read_csv = Inr,
               to_csv = (\<lambda>df. df),
               max_sleep = 9223372036\<rparr>"

definition empty_world :: "nat list world" where
  "empty_world = \<lparr>files = Map.empty, requests = [], sleeps = []\<rparr>"

definition stale_world :: "nat list world" where
  "stale_world = \<lparr>files = [''nba_shots_2001-02_all.csv'' \<mapsto> []], requests = [], sleeps = []\<rparr>"

section \<open>Properties of the court renderer\<close>

lemma select_rows_col_eq: "select_rows df (col_eq c v df) = filter (\<lambda>r. c r = v) df"
  unfolding select_rows_def col_eq_def
  by (induction df) auto

lemma zip_columns:
  "zip (column f rows) (series_add (column g rows) k) = map (\<lambda>r. (f r, g r + k)) rows"
  unfolding column_def series_add_def
  by (induction rows) auto

text \<open>
  Claim C8.  For every dataset, \<open>draw_shots\<close> adds two scatter artists: a green one
  holding exactly the rows with \<open>SHOT_MADE_FLAG = 1\<close> and a red one holding exactly the rows
  with \<open>SHOT_MADE_FLAG = 0\<close>, each row at \<open>(LOC_X, LOC_Y + 60)\<close> and in the dataset's
  order.  A row with any other flag is in neither subset.
\<close>

theorem draw_shots_partition:
  fixes df :: "'a shot_scheme list"
  defines "made \<equiv> filter (\<lambda>r. SHOT_MADE_FLAG r = 1) df"
    and "missed \<equiv> filter (\<lambda>r. SHOT_MADE_FLAG r = 0) df"
  shows "artists (draw_shots ax df) = artists ax @
           [PathCollection (map LOC_X made) (map (\<lambda>r. LOC_Y r + 60) made) ''green'' 10 (6 / 10),
            PathCollection (map LOC_X missed) (map (\<lambda>r. LOC_Y r + 60) missed) ''red'' 10 (6 / 10)]
       \<and> plotted ''green'' (draw_shots ax df) =
           plotted ''green'' ax @ map (\<lambda>r. (LOC_X r, LOC_Y r + 60)) made
       \<and> plotted ''red'' (draw_shots ax df) =
           plotted ''red'' ax @ map (\<lambda>r. (LOC_X r, LOC_Y r + 60)) missed
       \<and> {r \<in> set df. SHOT_MADE_FLAG r \<noteq> 1 \<and> SHOT_MADE_FLAG r \<noteq> 0} \<inter> (set made \<union> set missed) = {}"
proof -
  have a: "artists (draw_shots ax df) = artists ax @
           [PathCollection (column LOC_X made) (series_add (column LOC_Y made) 60) ''green'' 10 (6 / 10),
            PathCollection (column LOC_X missed) (series_add (column LOC_Y missed) 60) ''red'' 10 (6 / 10)]"
    by (simp add: draw_shots_def scatter_def select_rows_col_eq made_def missed_def Let_def)
  have g: "plotted ''green'' (draw_shots ax df) =
           plotted ''green'' ax @ map (\<lambda>r. (LOC_X r, LOC_Y r + 60)) made"
    unfolding plotted_def a by (simp add: zip_columns)
  have r: "plotted ''red'' (draw_shots ax df) =
           plotted ''red'' ax @ map (\<lambda>r. (LOC_X r, LOC_Y r + 60)) missed"
    unfolding plotted_def a by (simp add: zip_columns)
  have n: "{r \<in> set df. SHOT_MADE_FLAG r \<noteq> 1 \<and> SHOT_MADE_FLAG r \<noteq> 0} \<inter> (set made \<union> set missed) = {}"
    by (auto simp: made_def missed_def)
  from a g r n show ?thesis by (simp add: column_def series_add_def)
qed

text \<open>
  The spec's example: flags 1, 0, 1 and a fourth row with flag 2 give two green points and
  one red point, the fourth row in neither.
\<close>

theorem draw_shots_partition_witness:
  "plotted ''green''
     (draw_shots blank_axes
        [\<lparr>LOC_X = 5, LOC_Y = 10, SHOT_MADE_FLAG = 1\<rparr>,
         \<lparr>LOC_X = -7, LOC_Y = 20, SHOT_MADE_FLAG = 0\<rparr>,
         \<lparr>LOC_X = 9, LOC_Y = 30, SHOT_MADE_FLAG = 1\<rparr>,
         \<lparr>LOC_X = 1, LOC_Y = 2, SHOT_MADE_FLAG = 2\<rparr>]) = [(5, 70), (9, 90)]
   \<and> plotted ''red''
     (draw_shots blank_axes
        [\<lparr>LOC_X = 5, LOC_Y = 10, SHOT_MADE_FLAG = 1\<rparr>,
         \<lparr>LOC_X = -7, LOC_Y = 20, SHOT_MADE_FLAG = 0\<rparr>,
         \<lparr>LOC_X = 9, LOC_Y = 30, SHOT_MADE_FLAG = 1\<rparr>,
         \<lparr>LOC_X = 1, LOC_Y = 2, SHOT_MADE_FLAG = 2\<rparr>]) = [(-7, 80)]"
  using draw_shots_partition [of blank_axes
        "[\<lparr>LOC_X = 5, LOC_Y = 10, SHOT_MADE_FLAG = 1\<rparr>,
         \<lparr>LOC_X = -7, LOC_Y = 20, SHOT_MADE_FLAG = 0\<rparr>,
         \<lparr>LOC_X = 9, LOC_Y = 30, SHOT_MADE_FLAG = 1\<rparr>,
         \<lparr>LOC_X = 1, LOC_Y = 2, SHOT_MADE_FLAG = 2\<rparr>]"]
  by (simp add: plotted_def blank_axes_def)

text \<open>
  Claim C9, as the code has it.  \<open>create_court\<close> sets the x limits to exactly
  \<open>(-250, 250)\<close> and the y limits to exactly \<open>(0, 470)\<close> and hides the tick marks of
  both axes (an empty list of ticks each), whatever the surface held before.
\<close>

theorem create_court_limits:
  "xlim (fst (create_court ax color rc)) = (-250, 250)
   \<and> ylim (fst (create_court ax color rc)) = (0, 470)
   \<and> xticks (fst (create_court ax color rc)) = FixedTicks []
   \<and> yticks (fst (create_court ax color rc)) = FixedTicks []"
  by (simp add: create_court_def plot_def add_artist_def set_xlim_def set_ylim_def
      set_xticks_def set_yticks_def)

text \<open>Claim C9 as stated fails: the x limits are not the court width of \<open>-220\<close> to \<open>220\<close>.\<close>

theorem create_court_xlim_counterexample:
  "xlim (fst (create_court blank_axes ''black'' Map.empty)) \<noteq> (-220, 220)"
  by (simp add: create_court_def plot_def add_artist_def set_xlim_def set_ylim_def
      set_xticks_def set_yticks_def)


section \<open>Properties of the season fetcher\<close>

subsection \<open>The team loop\<close>

lemma nonempty_results_Nil [simp]: "nonempty_results E season [] = []"
  by (simp add: nonempty_results_def)


lemma nonempty_results_Cons:
  "nonempty_results E season (t # ts) = nonempty_results E season [t] @ nonempty_results E season ts"
  by (simp add: nonempty_results_def)

lemma file_names_differ: "output_file_name season \<noteq> progress_file_name season"
  by (simp add: output_file_name_def progress_file_name_def)

lemma all_shots_team_step:
  "all_shots (team_step E season delay save_every i t st) = all_shots st @ nonempty_results E season [t]"
  by (simp add: team_step_def nonempty_results_def Let_def split: sum.splits)

lemma all_shots_team_steps:
  "all_shots (team_steps E season delay save_every i ts st) = all_shots st @ nonempty_results E season ts"
proof (induction ts arbitrary: i st)
  case Nil
  show ?case by simp
next
  case (Cons t ts)
  show ?case
    by (simp add: Cons.IH all_shots_team_step nonempty_results_Cons [of E season t ts])
qed

lemma files_team_step_cases:
  "files (world (team_step E season delay save_every i t st)) =
     (if save_every \<noteq> 0 \<and> i mod save_every = 0 \<and> \<not> isl (ShotChartDetail E (id' t) season)
         \<and> all_shots st @ nonempty_results E season [t] \<noteq> []
      then (files (world st))(progress_file_name season \<mapsto>
              to_csv E (concat (all_shots st @ nonempty_results E season [t])))
      else files (world st))"
  by (auto simp add: team_step_def nonempty_results_def Let_def slept_def write_file_def
      send_request_def split: sum.splits)

lemma files_team_step_other:
  "name \<noteq> progress_file_name season \<Longrightarrow>
   files (world (team_step E season delay save_every i t st)) name = files (world st) name"
  by (simp add: files_team_step_cases)

lemma files_team_steps_other:
  "name \<noteq> progress_file_name season \<Longrightarrow>
   files (world (team_steps E season delay save_every i ts st)) name = files (world st) name"
  by (induction ts arbitrary: i st) (simp_all add: files_team_step_other)

lemma files_team_steps_no_shots:
  "all_shots st = [] \<Longrightarrow> nonempty_results E season ts = [] \<Longrightarrow>
   files (world (team_steps E season delay save_every i ts st)) = files (world st)"
proof (induction ts arbitrary: i st)
  case Nil
  show ?case by simp
next
  case (Cons t ts)
  from Cons.prems(2) have one: "nonempty_results E season [t] = []"
    and rest: "nonempty_results E season ts = []"
    by (simp_all add: nonempty_results_Cons [of E season t ts])
  have shots: "all_shots (team_step E season delay save_every i t st) = []"
    by (simp add: all_shots_team_step Cons.prems(1) one)
  have "files (world (team_step E season delay save_every i t st)) = files (world st)"
    by (simp add: files_team_step_cases Cons.prems(1) one)
  with Cons.IH [OF shots rest] show ?case by simp
qed

lemma requests_team_step:
  "requests (world (team_step E season delay save_every i t st)) =
     requests (world st) @ [(id' t, season)]"
  by (simp add: team_step_def Let_def slept_def write_file_def send_request_def split: sum.splits)

lemma requests_team_steps:
  "requests (world (team_steps E season delay save_every i ts st)) =
     requests (world st) @ map (\<lambda>t. (id' t, season)) ts"
  by (induction ts arbitrary: i st) (simp_all add: requests_team_step)



text \<open>With a delay that \<open>time.sleep\<close> accepts no iteration raises.\<close>

lemma sleep_returns:
  "0 \<le> delay \<Longrightarrow> delay \<le> max_sleep E \<Longrightarrow> sleep E delay w = Inr (slept delay w)"
  by (simp add: sleep_def slept_def)

lemma fetch_team_returns:
  assumes "0 \<le> delay" and "delay \<le> max_sleep E"
  shows "fetch_team E season delay save_every i t st =
           Inr (team_step E season delay save_every i t st)"
  by (simp add: fetch_team_def fetch_team_try_def fetch_team_except_def team_step_def
      sleep_returns [OF assms] Let_def split: sum.splits)

lemma team_loop_returns:
  assumes "0 \<le> delay" and "delay \<le> max_sleep E"
  shows "team_loop E season delay save_every i ts st =
           Inr (team_steps E season delay save_every i ts st)"
  by (induction ts arbitrary: i st) (simp_all add: fetch_team_returns [OF assms])

text \<open>With a delay that \<open>time.sleep\<close> rejects the first iteration leaves the function.\<close>

lemma sleep_raises:
  assumes "delay < 0 \<or> max_sleep E < delay"
  shows "\<exists>e. \<forall>w. sleep E delay w = Inl e"
  using assms by (auto simp: sleep_def)

lemma fetch_team_raises:
  assumes "delay < 0 \<or> max_sleep E < delay"
  shows "\<exists>e w'. fetch_team E season delay save_every i t st = Inl (e, w')
           \<and> files w' (output_file_name season) = files (world st) (output_file_name season)"
proof -
  from sleep_raises [OF assms] obtain e0 where s: "\<And>v. sleep E delay v = Inl e0"
    by blast
  show ?thesis
    using file_names_differ [of season]
    by (auto simp: fetch_team_def fetch_team_try_def fetch_team_except_def Let_def s
        send_request_def write_file_def split: sum.splits)
qed

lemma get_all_shots_season_raises:
  assumes "delay < 0 \<or> max_sleep E < delay"
    and "get_teams E \<noteq> []"
    and "files w (output_file_name season) = None"
  shows "isl (fst (get_all_shots_season E season delay save_every w))
       \<and> files (snd (get_all_shots_season E season delay save_every w)) (output_file_name season) = None"
proof -
  from assms(2) obtain t ts where teams: "get_teams E = t # ts"
    by (cases "get_teams E") auto
  from fetch_team_raises [OF assms(1), where season = season and save_every = save_every
      and i = 1 and t = t and st = "\<lparr>all_shots = [], failed_teams = [], world = w\<rparr>"]
  obtain e w' where "fetch_team E season delay save_every 1 t
      \<lparr>all_shots = [], failed_teams = [], world = w\<rparr> = Inl (e, w')"
    and "files w' (output_file_name season) = files w (output_file_name season)"
    by auto
  with assms(3) show ?thesis
    by (simp add: get_all_shots_season_def teams)
qed

text \<open>
  For instance, with a delay of \<open>-1\<close> the first team's failed request is recorded, the
  handler's sleep raises and the function raises its ValueError; no file is written.
\<close>

lemma negative_delay_raises_example:
  "get_all_shots_season failing_env ''2024-25'' (- 1) 1 empty_world =
     (Inl (ValueError ''sleep length must be non-negative''),
      empty_world\<lparr>requests := [(1, ''2024-25'')]\<rparr>)"
  by (simp add: get_all_shots_season_def failing_env_def demo_teams_def empty_world_def
      fetch_team_def fetch_team_try_def fetch_team_except_def sleep_def send_request_def
      output_file_name_def Let_def)

lemma get_all_shots_season_fetched:
  assumes "files w (output_file_name season) = None"
    and "nonempty_results E season (get_teams E) \<noteq> []"
    and "0 \<le> delay" and "delay \<le> max_sleep E"
  shows "get_all_shots_season E season delay save_every w =
     (let st = team_steps E season delay save_every 1 (get_teams E)
                 \<lparr>all_shots = [], failed_teams = [], world = w\<rparr>;
          w1 = write_file (output_file_name season)
                 (to_csv E (concat (nonempty_results E season (get_teams E)))) (world st)
      in (Inr (concat (nonempty_results E season (get_teams E))),
          if exists_file (progress_file_name season) w1
          then remove_file (progress_file_name season) w1 else w1))"
  using assms(1,2)
  by (simp add: get_all_shots_season_def Let_def team_loop_returns [OF assms(3,4)]
      all_shots_team_steps)

lemma get_all_shots_season_nothing:
  assumes "files w (output_file_name season) = None"
    and "nonempty_results E season (get_teams E) = []"
    and "0 \<le> delay" and "delay \<le> max_sleep E"
  shows "get_all_shots_season E season delay save_every w =
     (Inr [], world (team_steps E season delay save_every 1 (get_teams E)
                 \<lparr>all_shots = [], failed_teams = [], world = w\<rparr>))"
  using assms(1,2)
  by (simp add: get_all_shots_season_def Let_def team_loop_returns [OF assms(3,4)]
      all_shots_team_steps)


subsection \<open>Re-invocation on a finished season\<close>

text \<open>
  Claim C1.  For every season whose output file \<open>nba_shots_{season}_all.csv\<close> exists,
  \<open>get_all_shots_season\<close> returns what \<open>pd.read_csv\<close> loads from that file (the table,
  or the exception it raises), sends no shot-chart request and leaves every file as it
  was: the world is unchanged.
\<close>

theorem existing_output_is_loaded:
  assumes "files w (output_file_name season) = Some content"
  shows "fst (get_all_shots_season E season delay save_every w) = read_csv E content
       \<and> requests (snd (get_all_shots_season E season delay save_every w)) = requests w
       \<and> files (snd (get_all_shots_season E season delay save_every w)) = files w
       \<and> snd (get_all_shots_season E season delay save_every w) = w"
  using assms by (simp add: get_all_shots_season_def)

theorem existing_output_is_loaded_witness:
  "fst (get_all_shots_season demo_env ''2024-25'' (6 / 10) 5
         (empty_world\<lparr>files := [''nba_shots_2024-25_all.csv'' \<mapsto> [7, 8, 9]]\<rparr>)) = Inr [7, 8, 9]
   \<and> requests (snd (get_all_shots_season demo_env ''2024-25'' (6 / 10) 5
         (empty_world\<lparr>files := [''nba_shots_2024-25_all.csv'' \<mapsto> [7, 8, 9]]\<rparr>))) = []"
  using existing_output_is_loaded [of "empty_world\<lparr>files := [''nba_shots_2024-25_all.csv'' \<mapsto> [7, 8, 9]]\<rparr>"
      "''2024-25''" "[7, 8, 9]" demo_env "6 / 10" 5]
  by (simp add: output_file_name_def demo_env_def empty_world_def)

subsection \<open>The checkpoint\<close>

text \<open>
  Claim C2, at a failing input.  Teams A and B, \<open>save_every = 2\<close>, a delay of 0.6: the
  request for A yields two rows, the request for B raises.  The loop over the two teams
  ends normally.  B is the second team, so the index is a multiple of \<open>save_every\<close> and
  a successful result exists, yet after B no progress snapshot has been written: the
  checkpoint of lines 62 to 65 sits inside the \<open>try\<close> block and the handler of lines 70
  to 73 does not repeat it.
\<close>

theorem checkpoint_skipped_after_failed_team:
  "\<not> isl (team_loop demo_env ''2024-25'' (6 / 10) 2 1 (take 2 (get_teams demo_env))
       \<lparr>all_shots = [], failed_teams = [], world = empty_world\<rparr>)
   \<and> all_shots (projr (team_loop demo_env ''2024-25'' (6 / 10) 2 1 (take 2 (get_teams demo_env))
       \<lparr>all_shots = [], failed_teams = [], world = empty_world\<rparr>)) = [[10, 11]]
   \<and> failed_teams (projr (team_loop demo_env ''2024-25'' (6 / 10) 2 1 (take 2 (get_teams demo_env))
       \<lparr>all_shots = [], failed_teams = [], world = empty_world\<rparr>)) = [(''B'', ''timeout'')]
   \<and> files (world (projr (team_loop demo_env ''2024-25'' (6 / 10) 2 1 (take 2 (get_teams demo_env))
       \<lparr>all_shots = [], failed_teams = [], world = empty_world\<rparr>)))
       (progress_file_name ''2024-25'') = None"
  by (simp add: demo_env_def demo_teams_def empty_world_def fetch_team_def fetch_team_try_def
      fetch_team_except_def sleep_def send_request_def write_file_def progress_file_name_def
      Let_def)

subsection \<open>The final dataset\<close>

text \<open>
  Claim C3.  In a run that fetches (the output file is absent), with a delay that
  \<open>time.sleep\<close> accepts, and in which at least one team's request succeeds with rows, the
  value returned and the content written to the output file are the concatenation of
  exactly the successful non-empty tables, in team-list order with each table's rows in
  their order; the row count is the sum of those tables' row counts.  This holds for every
  \<open>save_every\<close>, zero included.  (With a delay that \<open>time.sleep\<close> rejects and a team
  to fetch, the function raises and no output file is written:
  \<open>get_all_shots_season_raises\<close>.)
\<close>

theorem final_dataset_is_concatenation:
  assumes "files w (output_file_name season) = None"
    and "nonempty_results E season (get_teams E) \<noteq> []"
    and "0 \<le> delay" and "delay \<le> max_sleep E"
  shows "fst (get_all_shots_season E season delay save_every w) =
           Inr (concat (nonempty_results E season (get_teams E)))
       \<and> files (snd (get_all_shots_season E season delay save_every w)) (output_file_name season) =
           Some (to_csv E (concat (nonempty_results E season (get_teams E))))
       \<and> length (concat (nonempty_results E season (get_teams E))) =
           sum_list (map length (nonempty_results E season (get_teams E)))"
  using file_names_differ [of season]
  by (simp add: get_all_shots_season_fetched [OF assms] Let_def write_file_def remove_file_def
      length_concat)

theorem final_dataset_is_concatenation_witness:
  "nonempty_results demo_env ''2024-25'' (get_teams demo_env) = [[10, 11], [30]]
   \<and> fst (get_all_shots_season demo_env ''2024-25'' (6 / 10) 5 empty_world) = Inr [10, 11, 30]
   \<and> files (snd (get_all_shots_season demo_env ''2024-25'' (6 / 10) 5 empty_world))
        ''nba_shots_2024-25_all.csv'' = Some [10, 11, 30]"
  using final_dataset_is_concatenation [of empty_world "''2024-25''" demo_env "6 / 10" 5]
  by (simp add: output_file_name_def demo_env_def empty_world_def nonempty_results_def demo_teams_def)

text \<open>
  Claim C4.  In a run that fetches, with a delay that \<open>time.sleep\<close> accepts, if no team
  produces a row (every request raises or returns an empty table), the function returns
  the empty dataset and the files of the working directory are exactly what they were:
  neither the output file nor the progress snapshot is written.
\<close>

theorem no_data_writes_nothing:
  assumes "files w (output_file_name season) = None"
    and "nonempty_results E season (get_teams E) = []"
    and "0 \<le> delay" and "delay \<le> max_sleep E"
  shows "fst (get_all_shots_season E season delay save_every w) = Inr []
       \<and> files (snd (get_all_shots_season E season delay save_every w)) = files w"
  by (simp add: get_all_shots_season_nothing [OF assms] files_team_steps_no_shots assms(2))

theorem no_data_writes_nothing_witness:
  "fst (get_all_shots_season failing_env ''2024-25'' (6 / 10) 1 empty_world) = Inr []
   \<and> files (snd (get_all_shots_season failing_env ''2024-25'' (6 / 10) 1 empty_world)) = Map.empty"
  using no_data_writes_nothing [of empty_world "''2024-25''" failing_env "6 / 10" 1]
  by (simp add: output_file_name_def failing_env_def empty_world_def nonempty_results_def demo_teams_def)

subsection \<open>The progress snapshot\<close>





section \<open>Properties of the season strings\<close>

lemma digit_char_inj: "a < 10 \<Longrightarrow> b < 10 \<Longrightarrow> digit_char a = digit_char b \<Longrightarrow> a = b"
proof -
  assume "a < 10" "b < 10" and eq: "digit_char a = digit_char b"
  then have "a \<in> {0, 1, 2, 3, 4, 5, 6, 7, 8, 9}" "b \<in> {0, 1, 2, 3, 4, 5, 6, 7, 8, 9}"
    by (simp_all, arith+)
  with eq show "a = b"
    unfolding digit_char_def by (elim insertE emptyE) simp_all
qed

lemma digit_char_not_minus: "d < 10 \<Longrightarrow> digit_char d \<noteq> CHR ''-''"
proof -
  assume "d < 10"
  then have "d \<in> {0, 1, 2, 3, 4, 5, 6, 7, 8, 9}" by (simp, arith)
  then show ?thesis unfolding digit_char_def by (elim insertE emptyE) simp_all
qed

lemma str_nat_not_Nil: "str_nat n \<noteq> []"
  by (subst str_nat.simps) simp

lemma str_nat_no_minus: "CHR ''-'' \<notin> set (str_nat n)"
proof (induction n rule: str_nat.induct)
  case (1 n)
  show ?case
  proof (cases "n < 10")
    case True
    then show ?thesis
      using digit_char_not_minus [of n] by (subst str_nat.simps) auto
  next
    case False
    with 1 have "CHR ''-'' \<notin> set (str_nat (n div 10))" by simp
    moreover have "digit_char (n mod 10) \<noteq> CHR ''-''"
      by (rule digit_char_not_minus) simp
    ultimately show ?thesis
      using False by (subst str_nat.simps) auto
  qed
qed

lemma str_nat_inj: "str_nat n = str_nat m \<Longrightarrow> n = m"
proof (induction n arbitrary: m rule: str_nat.induct)
  case (1 n)
  show ?case
  proof (cases "n < 10")
    case n: True
    show ?thesis
    proof (cases "m < 10")
      case True
      with n "1.prems" show ?thesis
        by (simp add: str_nat.simps [of n] str_nat.simps [of m] digit_char_inj)
    next
      case False
      with n "1.prems" str_nat_not_Nil [of "m div 10"] show ?thesis
        by (simp add: str_nat.simps [of n] str_nat.simps [of m])
    qed
  next
    case n: False
    show ?thesis
    proof (cases "m < 10")
      case True
      with n "1.prems" str_nat_not_Nil [of "n div 10"] show ?thesis
        by (simp add: str_nat.simps [of n] str_nat.simps [of m])
    next
      case False
      with n "1.prems" have "str_nat (n div 10) = str_nat (m div 10)"
        and "digit_char (n mod 10) = digit_char (m mod 10)"
        by (simp_all add: str_nat.simps [of n] str_nat.simps [of m])
      with "1.IH" [OF n, of "m div 10"] have "n div 10 = m div 10" and "n mod 10 = m mod 10"
        by (simp_all add: digit_char_inj)
      then show ?thesis
        by (metis div_mult_mod_eq)
    qed
  qed
qed

lemma takeWhile_upto_char: "c \<notin> set xs \<Longrightarrow> takeWhile (\<lambda>x. x \<noteq> c) (xs @ c # r) = xs"
  by (induction xs) auto

lemma prefix_before_minus:
  assumes "CHR ''-'' \<notin> set xs" and "CHR ''-'' \<notin> set ys"
    and "xs @ CHR ''-'' # r1 = ys @ CHR ''-'' # r2"
  shows "xs = ys"
proof -
  have "takeWhile (\<lambda>c. c \<noteq> CHR ''-'') (xs @ CHR ''-'' # r1) = xs"
    using assms(1) by (rule takeWhile_upto_char)
  moreover have "takeWhile (\<lambda>c. c \<noteq> CHR ''-'') (ys @ CHR ''-'' # r2) = ys"
    using assms(2) by (rule takeWhile_upto_char)
  ultimately show ?thesis using assms(3) by simp
qed

lemma season_str_inj: "season_str a = season_str b \<Longrightarrow> a = b"
proof -
  assume eq: "season_str a = season_str b"
  have hd_nat: "hd (str_nat k) \<noteq> CHR ''-''" for k
    using str_nat_no_minus [of k] str_nat_not_Nil [of k] by (cases "str_nat k") auto
  have hd_eq: "hd (season_str y) = (if y < 0 then CHR ''-'' else hd (str_nat (nat y)))" for y
    using str_nat_not_Nil [of "nat y"] by (simp add: season_str_def str_int_def)
  from eq have "hd (season_str a) = hd (season_str b)" by simp
  then have sign: "a < 0 \<longleftrightarrow> b < 0"
    using hd_nat [of "nat a"] hd_nat [of "nat b"] by (auto simp: hd_eq split: if_splits)
  show "a = b"
  proof (cases "a < 0")
    case True
    with sign have b: "b < 0" by simp
    from eq True b have "str_nat (nat (- a)) @ CHR ''-'' # zfill 2 (str_int (a - 2000 + 1)) =
        str_nat (nat (- b)) @ CHR ''-'' # zfill 2 (str_int (b - 2000 + 1))"
      by (simp add: season_str_def str_int_def)
    then have "str_nat (nat (- a)) = str_nat (nat (- b))"
      by (rule prefix_before_minus [OF str_nat_no_minus str_nat_no_minus])
    then have "nat (- a) = nat (- b)" by (rule str_nat_inj)
    with True b show ?thesis by simp
  next
    case False
    with sign have b: "\<not> b < 0" by simp
    from eq False b have "str_nat (nat a) @ CHR ''-'' # zfill 2 (str_int (a - 2000 + 1)) =
        str_nat (nat b) @ CHR ''-'' # zfill 2 (str_int (b - 2000 + 1))"
      by (simp add: season_str_def str_int_def)
    then have "str_nat (nat a) = str_nat (nat b)"
      by (rule prefix_before_minus [OF str_nat_no_minus str_nat_no_minus])
    then have "nat a = nat b" by (rule str_nat_inj)
    with False b show ?thesis by simp
  qed
qed

lemma distinct_season_strs: "distinct (map season_str [i..j])"
  by (simp add: distinct_map inj_on_def season_str_inj)

lemma season_str_examples:
  "season_str 2000 = ''2000-01''" "season_str 2005 = ''2005-06''"
  "season_str 2025 = ''2025-26''" "season_str 1999 = ''1999-00''"
  by (simp_all add: season_str_def str_int_def zfill_def digit_char_def str_nat.simps)

lemma digit_char_not_plus: "d < 10 \<Longrightarrow> digit_char d \<noteq> CHR ''+''"
proof -
  assume "d < 10"
  then have "d \<in> {0, 1, 2, 3, 4, 5, 6, 7, 8, 9}" by (simp, arith)
  then show ?thesis unfolding digit_char_def by (elim insertE emptyE) simp_all
qed

lemma digit_char_0: "digit_char 0 = CHR ''0''"
  by (simp add: digit_char_def)

lemma season_str_two_digit:
  assumes "1999 \<le> year" and "year \<le> 2098"
  shows "season_str year = str_int year @ ''-'' @
           [digit_char (nat ((year + 1) mod 100) div 10), digit_char (nat ((year + 1) mod 100) mod 10)]"
proof -
  define n where "n = nat (year - 1999)"
  from assms have n: "n < 100" and y: "year - 2000 + 1 = int n"
    by (simp_all add: n_def)
  from assms have e: "year + 1 = int n + 20 * 100"
    by (simp add: n_def)
  from n have m: "(year + 1) mod 100 = int n"
    unfolding e by (simp only: mod_mult_self1 mod_mult_self2) simp
  have "zfill 2 (str_nat n) = [digit_char (n div 10), digit_char (n mod 10)]"
  proof (cases "n < 10")
    case True
    then show ?thesis
      by (simp add: str_nat.simps [of n] zfill_def digit_char_not_plus digit_char_not_minus
          digit_char_0)
  next
    case False
    with n have "n div 10 < 10" by simp
    with False show ?thesis
      by (simp add: str_nat.simps [of n] str_nat.simps [of "n div 10"] zfill_def)
  qed
  moreover have "str_int (year - 2000 + 1) = str_nat n"
    unfolding y by (simp add: str_int_def)
  ultimately show ?thesis
    unfolding season_str_def m by simp
qed

text \<open>
  Claim C5, at failing inputs.  The suffix is \<open>str(year - 2000 + 1).zfill(2)\<close>, which is
  the two-digit next year only from 1999 to 2098 (\<open>season_str_two_digit\<close>; the claim's
  four examples are \<open>season_str_examples\<close>).  For 1998 the difference is \<open>-1\<close> and the
  season string is \<open>1998--1\<close>, not \<open>1998-99\<close>; for 2099 it is \<open>2099-100\<close>.
\<close>

theorem season_str_before_1999:
  "season_str 1998 = ''1998--1'' \<and> season_str 1996 = ''1996--3'' \<and> season_str 2099 = ''2099-100''"
  by (simp add: season_str_def str_int_def zfill_def digit_char_def str_nat.simps)

section \<open>Properties of the multi-season driver\<close>

lemma update_new_key: "k \<notin> fst ` set rs \<Longrightarrow> AList.update k v rs = rs @ [(k, v)]"
  by (induction rs) auto

lemma seasons_loop_append:
  "seasons_loop E delay save_every (xs @ ys) acc =
     seasons_loop E delay save_every ys (seasons_loop E delay save_every xs acc)"
  by (induction xs arbitrary: acc) simp_all

lemma fetch_season_eq:
  "fetch_season E delay save_every year (results, w) =
     (AList.update (season_str year)
        (case fst (get_all_shots_season E (season_str year) delay save_every w) of
           Inr df \<Rightarrow> Success (length df) (output_file_name (season_str year))
         | Inl e \<Rightarrow> Failure (str_exn e)) results,
      snd (get_all_shots_season E (season_str year) delay save_every w))"
  by (simp add: fetch_season_def Let_def split: prod.splits sum.splits)

lemma seasons_loop_take_Suc:
  assumes "k < length years"
  shows "seasons_loop E delay save_every (take (Suc k) years) acc =
         fetch_season E delay save_every (years ! k)
           (seasons_loop E delay save_every (take k years) acc)"
  using assms by (simp add: take_Suc_conv_app_nth seasons_loop_append)

lemma seasons_loop_entries:
  assumes "distinct (map season_str years)"
  shows "fst (seasons_loop E delay save_every years ([], w)) =
     map (\<lambda>k. (season_str (years ! k),
                case fst (get_all_shots_season E (season_str (years ! k)) delay save_every
                       (snd (seasons_loop E delay save_every (take k years) ([], w)))) of
                  Inr df \<Rightarrow> Success (length df) (output_file_name (season_str (years ! k)))
                | Inl e \<Rightarrow> Failure (str_exn e)))
       [0..<length years]"
  using assms
proof (induction years rule: rev_induct)
  case Nil
  show ?case by simp
next
  case (snoc y ys)
  let ?entry = "\<lambda>zs k. (season_str (zs ! k),
                case fst (get_all_shots_season E (season_str (zs ! k)) delay save_every
                       (snd (seasons_loop E delay save_every (take k zs) ([], w)))) of
                  Inr df \<Rightarrow> Success (length df) (output_file_name (season_str (zs ! k)))
                | Inl e \<Rightarrow> Failure (str_exn e))"
  obtain rs w' where loop: "seasons_loop E delay save_every ys ([], w) = (rs, w')"
    by (cases "seasons_loop E delay save_every ys ([], w)")
  from snoc.prems have d: "distinct (map season_str ys)" and new: "season_str y \<notin> season_str ` set ys"
    by simp_all
  from snoc.IH [OF d] loop have rs: "rs = map (?entry ys) [0..<length ys]" by simp
  have old: "map (?entry (ys @ [y])) [0..<length ys] = map (?entry ys) [0..<length ys]"
    by (rule map_cong) (simp_all add: nth_append split: sum.splits)
  have keys: "fst ` set rs = season_str ` set ys"
  proof -
    have "map fst rs = map season_str ys"
      unfolding rs by (rule nth_equalityI) simp_all
    then have "set (map fst rs) = set (map season_str ys)" by simp
    then show ?thesis by simp
  qed
  have last: "fst (seasons_loop E delay save_every (ys @ [y]) ([], w)) =
      rs @ [?entry (ys @ [y]) (length ys)]"
    using new by (simp add: seasons_loop_append loop fetch_season_eq update_new_key keys
        split: sum.splits)
  have split: "map (?entry (ys @ [y])) [0..<length (ys @ [y])] =
      map (?entry (ys @ [y])) [0..<length ys] @ [?entry (ys @ [y]) (length ys)]"
    by simp
  show ?case
    by (simp only: last split old rs)
qed

lemma summary_total_sum:
  "summary_total results total_shots =
     total_shots + sum_list (map (\<lambda>(season, info). case info of Success shots file \<Rightarrow> shots
                                                      | Failure error \<Rightarrow> 0) results)"
  by (induction results total_shots rule: summary_total.induct) simp_all

lemma get_all_seasons_results:
  "fst (get_all_seasons E start_year end_year delay save_every w) =
     fst (seasons_loop E delay save_every [start_year..end_year] ([], w))"
  by (simp add: get_all_seasons_def Let_def split: prod.splits)

lemma get_all_seasons_total:
  "fst (snd (get_all_seasons E start_year end_year delay save_every w)) =
     summary_total (fst (get_all_seasons E start_year end_year delay save_every w)) 0"
  by (simp add: get_all_seasons_def Let_def split: prod.splits)

lemma seasons_loop_world_Suc:
  assumes "k < length years"
  shows "snd (seasons_loop E delay save_every (take (Suc k) years) ([], w)) =
         snd (get_all_shots_season E (season_str (years ! k)) delay save_every
                (snd (seasons_loop E delay save_every (take k years) ([], w))))"
proof -
  obtain rs w' where loop: "seasons_loop E delay save_every (take k years) ([], w) = (rs, w')"
    by (cases "seasons_loop E delay save_every (take k years) ([], w)")
  show ?thesis
    by (simp add: seasons_loop_take_Suc [OF assms] loop fetch_season_eq)
qed

lemma seasons_loop_entry:
  assumes "distinct (map season_str years)" and "k < length years"
  shows "fst (seasons_loop E delay save_every years ([], w)) ! k =
     (season_str (years ! k),
      case fst (get_all_shots_season E (season_str (years ! k)) delay save_every
                  (world_before E delay save_every years w k)) of
        Inr df \<Rightarrow> Success (length df) (output_file_name (season_str (years ! k)))
      | Inl e \<Rightarrow> Failure (str_exn e))"
  using assms(2) by (simp add: seasons_loop_entries [OF assms(1)] world_before_def split: sum.splits)

lemma upto_2000_2002: "[2000..2002] = [2000, 2001, 2002 :: int]"
  by (simp add: upto_rec1)

lemmas eval_simps = season_str_def str_int_def zfill_def digit_char_def str_nat.simps
  fetch_season_def get_all_shots_season_def fetch_team_def fetch_team_try_def
  fetch_team_except_def send_request_def sleep_def write_file_def remove_file_def exists_file_def
  output_file_name_def progress_file_name_def Let_def

text \<open>
  Claim C6.  For every range of years: the run summary has one entry per season of the
  range, in ascending year order, whatever failed; a season whose fetch raises \<open>e\<close> is
  recorded as a failure with the text of \<open>e\<close>; and the total printed in the final summary
  is the sum of the shot counts of the successful seasons.  \<open>get_all_seasons\<close> is a total
  function, so the final summary is always reached.
\<close>

theorem failed_season_does_not_stop_run:
  fixes E :: "('r, 'f) env" and start_year end_year save_every :: int and delay :: rat
    and w :: "'f world"
  defines "years \<equiv> [start_year..end_year]"
  defines "summary \<equiv> get_all_seasons E start_year end_year delay save_every w"
  shows "map fst (fst summary) = map season_str years
       \<and> (\<forall>k e. k < length years
             \<and> fst (get_all_shots_season E (season_str (years ! k)) delay save_every
                     (world_before E delay save_every years w k)) = Inl e
             \<longrightarrow> fst summary ! k = (season_str (years ! k), Failure (str_exn e)))
       \<and> fst (snd summary) =
           sum_list (map (\<lambda>(season, info). case info of Success shots file \<Rightarrow> shots
                                             | Failure error \<Rightarrow> 0) (fst summary))"
proof (intro conjI allI impI)
  have entries: "fst summary =
     map (\<lambda>k. (season_str (years ! k),
                case fst (get_all_shots_season E (season_str (years ! k)) delay save_every
                       (snd (seasons_loop E delay save_every (take k years) ([], w)))) of
                  Inr df \<Rightarrow> Success (length df) (output_file_name (season_str (years ! k)))
                | Inl e \<Rightarrow> Failure (str_exn e)))
       [0..<length years]"
    unfolding summary_def years_def get_all_seasons_results
    by (rule seasons_loop_entries) (rule distinct_season_strs)
  show "map fst (fst summary) = map season_str years"
    unfolding entries by (rule nth_equalityI) simp_all
  show "fst (snd summary) =
           sum_list (map (\<lambda>(season, info). case info of Success shots file \<Rightarrow> shots
                                             | Failure error \<Rightarrow> 0) (fst summary))"
    unfolding summary_def get_all_seasons_total by (simp add: summary_total_sum)
  fix k e
  assume "k < length years
             \<and> fst (get_all_shots_season E (season_str (years ! k)) delay save_every
                     (world_before E delay save_every years w k)) = Inl e"
  then show "fst summary ! k = (season_str (years ! k), Failure (str_exn e))"
    unfolding entries world_before_def by simp
qed

text \<open>
  Three seasons, the middle one with an output file that \<open>pd.read_csv\<close> cannot parse: it
  is recorded as failed, the season after it is fetched, and the total is that of the two
  others.
\<close>

theorem failed_season_does_not_stop_run_witness:
  "fst (get_all_shots_season demo_env (season_str 2001) (6 / 10) 5
          (world_before demo_env (6 / 10) 5 [2000..2002] stale_world 1)) =
      Inl (ReadError ''No columns to parse from file'')
   \<and> fst (get_all_seasons demo_env 2000 2002 (6 / 10) 5 stale_world) =
      [(''2000-01'', Success 3 ''nba_shots_2000-01_all.csv''),
       (''2001-02'', Failure ''No columns to parse from file''),
       (''2002-03'', Success 3 ''nba_shots_2002-03_all.csv'')]
   \<and> fst (snd (get_all_seasons demo_env 2000 2002 (6 / 10) 5 stale_world)) = 6"
proof -
  have raised: "fst (get_all_shots_season demo_env (season_str 2001) (6 / 10) 5
          (world_before demo_env (6 / 10) 5 [2000..2002] stale_world 1)) =
      Inl (ReadError ''No columns to parse from file'')"
    by (simp add: world_before_def upto_2000_2002 eval_simps demo_env_def demo_teams_def
        stale_world_def)
  have strs: "season_str 2000 = ''2000-01''" "season_str 2001 = ''2001-02''"
    "season_str 2002 = ''2002-03''"
    by (simp_all add: season_str_def str_int_def zfill_def digit_char_def str_nat.simps)
  have summary: "fst (get_all_seasons demo_env 2000 2002 (6 / 10) 5 stale_world) =
      [(''2000-01'', Success 3 ''nba_shots_2000-01_all.csv''),
       (''2001-02'', Failure ''No columns to parse from file''),
       (''2002-03'', Success 3 ''nba_shots_2002-03_all.csv'')]"
    by (simp add: get_all_seasons_def upto_2000_2002 eval_simps demo_env_def demo_teams_def
        stale_world_def)
  from failed_season_does_not_stop_run [of demo_env 2000 2002 "6 / 10" 5 stale_world]
  have all: "map fst (fst (get_all_seasons demo_env 2000 2002 (6 / 10) 5 stale_world)) =
        map season_str [2000..2002]"
    and fail: "\<And>k e. k < length [2000..2002::int] \<and>
        fst (get_all_shots_season demo_env (season_str ([2000..2002] ! k)) (6 / 10) 5
          (world_before demo_env (6 / 10) 5 [2000..2002] stale_world k)) = Inl e
        \<Longrightarrow> fst (get_all_seasons demo_env 2000 2002 (6 / 10) 5 stale_world) ! k =
          (season_str ([2000..2002] ! k), Failure (str_exn e))"
    and total: "fst (snd (get_all_seasons demo_env 2000 2002 (6 / 10) 5 stale_world)) =
      sum_list (map (\<lambda>(season, info). case info of Success shots file \<Rightarrow> shots
                                             | Failure error \<Rightarrow> 0)
                  (fst (get_all_seasons demo_env 2000 2002 (6 / 10) 5 stale_world)))"
    by blast+
  from fail [of 1 "ReadError ''No columns to parse from file''"] raised
  have second: "fst (get_all_seasons demo_env 2000 2002 (6 / 10) 5 stale_world) ! 1 =
      (''2001-02'', Failure ''No columns to parse from file'')"
    by (simp add: upto_2000_2002 strs)
  from total have "fst (snd (get_all_seasons demo_env 2000 2002 (6 / 10) 5 stale_world)) = 6"
    unfolding summary by simp
  with raised second summary show ?thesis by simp
qed

text \<open>
  Claim C10.  For the season of index \<open>k\<close> of the range: if its fetch returns a table, the
  entry is a success with that table's row count and the output file's name; the entry is
  a failure exactly when the fetch raised; and when the output file is absent,
  \<open>time.sleep\<close> accepts the delay and no team produces a row, the fetch returns the
  empty dataset and the entry is a success with zero shots although the file it names
  still does not exist after the fetch.
\<close>

theorem returned_season_is_success:
  fixes E :: "('r, 'f) env" and start_year end_year save_every :: int and delay :: rat
    and w :: "'f world" and k :: nat
  defines "years \<equiv> [start_year..end_year]"
  defines "summary \<equiv> get_all_seasons E start_year end_year delay save_every w"
  defines "season \<equiv> season_str ([start_year..end_year] ! k)"
  defines "outcome \<equiv> fst (get_all_shots_season E (season_str ([start_year..end_year] ! k))
     delay save_every (world_before E delay save_every [start_year..end_year] w k))"
  assumes k: "k < length years"
  shows "(\<forall>df. outcome = Inr df \<longrightarrow>
            fst summary ! k = (season, Success (length df) (output_file_name season)))
       \<and> ((\<exists>error. snd (fst summary ! k) = Failure error) \<longleftrightarrow> isl outcome)
       \<and> (files (world_before E delay save_every years w k) (output_file_name season) = None
          \<and> nonempty_results E season (get_teams E) = []
          \<and> 0 \<le> delay \<and> delay \<le> max_sleep E \<longrightarrow>
            outcome = Inr []
          \<and> fst summary ! k = (season, Success 0 (output_file_name season))
          \<and> files (world_before E delay save_every years w (Suc k)) (output_file_name season) = None)"
proof -
  have entry: "fst summary ! k =
      (season, case outcome of Inr df \<Rightarrow> Success (length df) (output_file_name season)
                             | Inl e \<Rightarrow> Failure (str_exn e))"
    unfolding summary_def season_def outcome_def get_all_seasons_results
    by (rule seasons_loop_entry [OF distinct_season_strs k [unfolded years_def]])
  have after: "world_before E delay save_every years w (Suc k) =
      snd (get_all_shots_season E season delay save_every
             (world_before E delay save_every years w k))"
    unfolding world_before_def season_def years_def
    using k unfolding years_def by (rule seasons_loop_world_Suc)
  have returned: "\<forall>df. outcome = Inr df \<longrightarrow>
            fst summary ! k = (season, Success (length df) (output_file_name season))"
    by (simp add: entry)
  have failed: "(\<exists>error. snd (fst summary ! k) = Failure error) \<longleftrightarrow> isl outcome"
    by (cases outcome) (simp_all add: entry)
  have no_rows: "outcome = Inr []
          \<and> fst summary ! k = (season, Success 0 (output_file_name season))
          \<and> files (world_before E delay save_every years w (Suc k)) (output_file_name season) = None"
    if "files (world_before E delay save_every years w k) (output_file_name season) = None
          \<and> nonempty_results E season (get_teams E) = []
          \<and> 0 \<le> delay \<and> delay \<le> max_sleep E"
  proof -
    from that have absent: "files (world_before E delay save_every years w k) (output_file_name season) = None"
      and none: "nonempty_results E season (get_teams E) = []"
      and d: "0 \<le> delay" "delay \<le> max_sleep E" by simp_all
    have "get_all_shots_season E season delay save_every (world_before E delay save_every years w k) =
      (Inr [], world (team_steps E season delay save_every 1 (get_teams E)
          \<lparr>all_shots = [], failed_teams = [], world = world_before E delay save_every years w k\<rparr>))"
      by (rule get_all_shots_season_nothing [OF absent none d])
    moreover from this have "outcome = Inr []"
      by (simp add: outcome_def season_def years_def)
    ultimately show ?thesis
      using absent none by (simp add: entry after files_team_steps_no_shots)
  qed
  from no_rows have "files (world_before E delay save_every years w k) (output_file_name season) = None
          \<and> nonempty_results E season (get_teams E) = []
          \<and> 0 \<le> delay \<and> delay \<le> max_sleep E \<longrightarrow>
            outcome = Inr []
          \<and> fst summary ! k = (season, Success 0 (output_file_name season))
          \<and> files (world_before E delay save_every years w (Suc k)) (output_file_name season) = None"
    by blast
  with returned failed show ?thesis by (intro conjI)
qed

theorem returned_season_is_success_witness:
  "fst (get_all_shots_season failing_env (season_str 2000) (6 / 10) 5 empty_world) = Inr []
   \<and> fst (get_all_seasons failing_env 2000 2000 (6 / 10) 5 empty_world) ! 0 =
      (''2000-01'', Success 0 ''nba_shots_2000-01_all.csv'')
   \<and> files (world_before failing_env (6 / 10) 5 [2000..2000] empty_world (Suc 0))
        ''nba_shots_2000-01_all.csv'' = None"
proof -
  have up: "[2000..2000] = [2000 :: int]"
    by (simp add: upto_rec1)
  have str: "season_str 2000 = ''2000-01''"
    by (simp add: season_str_def str_int_def zfill_def digit_char_def str_nat.simps)
  have before: "world_before failing_env d 5 [2000] empty_world 0 = empty_world" for d
    by (simp add: world_before_def)
  have absent: "files empty_world (output_file_name ''2000-01'') = None"
    by (simp add: empty_world_def)
  have none: "nonempty_results failing_env ''2000-01'' (get_teams failing_env) = []"
    by (simp add: nonempty_results_def failing_env_def demo_teams_def)
  have d: "(0::rat) \<le> 6 / 10" "6 / 10 \<le> max_sleep failing_env"
    by (simp_all add: failing_env_def)
  have returned: "fst (get_all_shots_season failing_env ''2000-01'' (6 / 10) 5 empty_world) = Inr []"
    by (subst get_all_shots_season_nothing [OF absent none d]) simp
  from returned_season_is_success [of 0 2000 2000 failing_env "6 / 10" 5 empty_world]
    absent none d returned
  show ?thesis
    by (simp add: up str before output_file_name_def)
qed

end
